theory Spec2Isabelle
  imports Main
begin

section \<open>Point-in-time lookup over the audit log (auditlog/history.py)\<close>

subsection \<open>Python values\<close>

text \<open>
  \<open>LogEntry.serialized_data\<close> is a nullable JSON column, so the lookup can meet any
  decoded JSON value: \<open>None\<close> (SQL NULL and JSON null both decode to it), a boolean, a
  number, a string, a list, or a dict with string keys. A dict is kept as an association
  list in insertion order; lookups read the first binding of a key. Numbers are kept as
  integers: the lookup never inspects them.
\<close>

datatype pyval =
    PyNone
  | PyBool bool
  | PyInt int
  | PyStr string
  | PyList "pyval list"
  | PyDict "(string \<times> pyval) list"

text \<open>The exceptions that can leave the two lookup methods.\<close>

datatype error =
    NotImplementedError   \<comment> \<open>raised by the mixin's own \<open>get_for_object\<close>\<close>
  | AttributeError        \<comment> \<open>a method looked up on a value that has none of that name\<close>
  | CollaboratorError     \<comment> \<open>anything the manager's \<open>get_for_object\<close> query raises\<close>

subsection \<open>Records\<close>

text \<open>
  The columns of \<open>LogEntry\<close> that the lookup reads. Timestamps are points of a total
  order, here integers (say microseconds since the epoch).
\<close>

record log_entry =
  le_id :: int
  le_timestamp :: int
  serialized_data :: pyval

text \<open>
  The dataclass \<open>HistoricalObjectState\<close>. The optional fields default to \<open>None\<close>;
  \<open>serialized_fields\<close> holds a Python value, with \<open>PyNone\<close> for \<open>None\<close>.
\<close>

record HistoricalObjectState =
  log_found :: bool
  serialized_fields :: pyval
  timestamp :: "int option"
  log_entry_id :: "int option"

text \<open>
  The dataclass \<open>HistoricalFieldState\<close>; its fields carry the suffix \<open>_f\<close> where the
  name is already taken by the object state. \<open>value_f\<close> is the attribute \<open>value\<close>.
\<close>

record HistoricalFieldState =
  log_found_f :: bool
  field_found :: bool
  field_name :: string
  value_f :: pyval
  timestamp_f :: "int option"
  log_entry_id_f :: "int option"

subsection \<open>The pieces of Python and of the query set that the methods call\<close>

text \<open>\<open>d.get(k, default)\<close> and \<open>k in d\<close> on a dict.\<close>

definition dict_get :: "(string \<times> pyval) list \<Rightarrow> string \<Rightarrow> pyval \<Rightarrow> pyval" where
  "dict_get d k dflt = (case map_of d k of None \<Rightarrow> dflt | Some v \<Rightarrow> v)"

definition dict_contains :: "(string \<times> pyval) list \<Rightarrow> string \<Rightarrow> bool" where
  "dict_contains d k = (map_of d k \<noteq> None)"

text \<open>
  \<open>v.copy()\<close>: dicts and lists have the method and return an equal value; \<open>None\<close>,
  booleans, numbers and strings have no attribute \<open>copy\<close>.
\<close>

fun copy :: "pyval \<Rightarrow> error + pyval" where
  "copy (PyDict d) = Inr (PyDict d)"
| "copy (PyList xs) = Inr (PyList xs)"
| "copy v = Inl AttributeError"

text \<open>Truth value of a Python value, and \<open>v or None\<close>.\<close>

fun truthy :: "pyval \<Rightarrow> bool" where
  "truthy PyNone = False"
| "truthy (PyBool b) = b"
| "truthy (PyInt n) = (n \<noteq> 0)"
| "truthy (PyStr s) = (s \<noteq> [])"
| "truthy (PyList xs) = (xs \<noteq> [])"
| "truthy (PyDict d) = (d \<noteq> [])"

definition or_None :: "pyval \<Rightarrow> pyval" where
  "or_None v = (if truthy v then v else PyNone)"

text \<open>
  The query set returned by \<open>get_for_object\<close> is a list of rows in the order the store
  holds them. \<open>filter(timestamp__lte=T)\<close> keeps the rows at or before \<open>T\<close>;
  \<open>order_by("-timestamp")\<close> sorts by descending timestamp and leaves rows of equal
  timestamp in the order they had (whichever row the store puts first among equals is
  covered by some order of the input list); \<open>first()\<close> is the first row or \<open>None\<close>.
\<close>

definition filter_timestamp_lte :: "int \<Rightarrow> log_entry list \<Rightarrow> log_entry list" where
  "filter_timestamp_lte T qs = filter (\<lambda>l. le_timestamp l \<le> T) qs"

definition order_by_timestamp_desc :: "log_entry list \<Rightarrow> log_entry list" where
  "order_by_timestamp_desc qs = sort_key (\<lambda>l. - le_timestamp l) qs"

fun first_row :: "log_entry list \<Rightarrow> log_entry option" where
  "first_row [] = None"
| "first_row (l # ls) = Some l"

subsection \<open>HistoricalStateLookupManagerMixin\<close>

text \<open>
  The mixin's own \<open>get_for_object\<close> raises; a manager that mixes the class in overrides
  it. The two lookup methods therefore take the manager's \<open>get_for_object\<close> as the
  parameter \<open>gfo\<close>: it returns the rows of an instance or raises.
\<close>

definition get_for_object :: "'inst \<Rightarrow> error + log_entry list" where
  "get_for_object instance = Inl NotImplementedError"

text \<open>
  Lines 63 to 68: the row bound to \<open>log\<close>. The rows of the query set are \<open>LogEntry\<close>
  rows, so the test \<open>isinstance(log, LogEntry)\<close> on line 71 fails exactly when \<open>first()\<close>
  returned \<open>None\<close>.
\<close>

definition select_log :: "int \<Rightarrow> log_entry list \<Rightarrow> log_entry option" where
  "select_log T qs = first_row (order_by_timestamp_desc (filter_timestamp_lte T qs))"

text \<open>
  Lines 75 to 78: the value bound to \<open>serialized_fields\<close>. The first equation is the
  branch \<open>isinstance(log.serialized_data, dict)\<close>, where \<open>copy\<close> is called on whatever
  \<open>get("fields", {})\<close> returned; the second is the \<open>else\<close> branch.
\<close>

fun decode_serialized_fields :: "pyval \<Rightarrow> error + pyval" where
  "decode_serialized_fields (PyDict d) =
     (case copy (dict_get d ''fields'' (PyDict [])) of
        Inl e \<Rightarrow> Inl e
      | Inr c \<Rightarrow> Inr (or_None c))"
| "decode_serialized_fields v = Inr PyNone"

definition get_object_state_at_timestamp ::
  "('inst \<Rightarrow> error + log_entry list) \<Rightarrow> 'inst \<Rightarrow> int \<Rightarrow> error + HistoricalObjectState" where
  "get_object_state_at_timestamp gfo instance T =
     (case gfo instance of
        Inl e \<Rightarrow> Inl e
      | Inr qs \<Rightarrow>
          (case select_log T qs of
             None \<Rightarrow>
               Inr \<lparr>log_found = False, serialized_fields = PyNone,
                    timestamp = None, log_entry_id = None\<rparr>
           | Some log \<Rightarrow>
               (case decode_serialized_fields (serialized_data log) of
                  Inl e \<Rightarrow> Inl e
                | Inr sf \<Rightarrow>
                    Inr \<lparr>log_found = True, serialized_fields = sf,
                         timestamp = Some (le_timestamp log),
                         log_entry_id = Some (le_id log)\<rparr>)))"

definition get_field_state_at_timestamp ::
  "('inst \<Rightarrow> error + log_entry list) \<Rightarrow> 'inst \<Rightarrow> string \<Rightarrow> int \<Rightarrow> error + HistoricalFieldState" where
  "get_field_state_at_timestamp gfo instance name T =
     (case get_object_state_at_timestamp gfo instance T of
        Inl e \<Rightarrow> Inl e
      | Inr object_state \<Rightarrow>
          if \<not> log_found object_state then
            Inr \<lparr>log_found_f = False, field_found = False, field_name = name,
                 value_f = PyNone, timestamp_f = None, log_entry_id_f = None\<rparr>
          else
            (case serialized_fields object_state of
               PyDict fields_d \<Rightarrow>
                 if \<not> dict_contains fields_d name then
                   Inr \<lparr>log_found_f = True, field_found = False, field_name = name,
                        value_f = PyNone, timestamp_f = timestamp object_state,
                        log_entry_id_f = log_entry_id object_state\<rparr>
                 else
                   Inr \<lparr>log_found_f = True, field_found = True, field_name = name,
                        value_f = dict_get fields_d name PyNone,
                        timestamp_f = timestamp object_state,
                        log_entry_id_f = log_entry_id object_state\<rparr>
             | _ \<Rightarrow>
                 Inr \<lparr>log_found_f = True, field_found = False, field_name = name,
                      value_f = PyNone, timestamp_f = timestamp object_state,
                      log_entry_id_f = log_entry_id object_state\<rparr>))"

subsection \<open>Calls against the database\<close>

text \<open>
  The database holds, for each instance, the rows of its log (or fails to answer). The
  methods only read it: \<open>filter\<close>, \<open>order_by\<close> and \<open>first\<close> build and run one SELECT, and
  neither method saves, creates or deletes a row. A call is therefore a step from a
  database to a result and the database it leaves behind, which is the one it found.

  The query orders by \<open>-timestamp\<close> alone, so the order among rows of equal timestamp is
  the database's choice at each query. \<open>handover\<close> stands for that choice: it is the order
  in which the database passes the rows of the instance to this query, and the sort
  keeps that order among equal timestamps.
\<close>

type_synonym 'inst database = "'inst \<Rightarrow> error + log_entry list"

definition query_rows ::
  "(log_entry list \<Rightarrow> log_entry list) \<Rightarrow> 'inst database \<Rightarrow> 'inst \<Rightarrow> error + log_entry list" where
  "query_rows handover db instance =
     (case db instance of Inl e \<Rightarrow> Inl e | Inr qs \<Rightarrow> Inr (handover qs))"

definition object_state_call ::
  "(log_entry list \<Rightarrow> log_entry list) \<Rightarrow> 'inst \<Rightarrow> int \<Rightarrow> 'inst database \<Rightarrow>
   (error + HistoricalObjectState) \<times> 'inst database" where
  "object_state_call handover instance T db =
     (get_object_state_at_timestamp (query_rows handover db) instance T, db)"

definition field_state_call ::
  "(log_entry list \<Rightarrow> log_entry list) \<Rightarrow> 'inst \<Rightarrow> string \<Rightarrow> int \<Rightarrow> 'inst database \<Rightarrow>
   (error + HistoricalFieldState) \<times> 'inst database" where
  "field_state_call handover instance name T db =
     (get_field_state_at_timestamp (query_rows handover db) instance name T, db)"


subsection \<open>Example logs\<close>

text \<open>
  A store that holds the rows \<open>qs\<close> for instance 7 and nothing for any other instance.
\<close>

definition store_of :: "log_entry list \<Rightarrow> nat \<Rightarrow> error + log_entry list" where
  "store_of qs instance = (if instance = 7 then Inr qs else Inr [])"

text \<open>Two snapshots, at times 1 and 5, of an object whose \<open>name\<close> went from a to b.\<close>

definition rows_ab :: "log_entry list" where
  "rows_ab =
     [\<lparr>le_id = 1, le_timestamp = 1,
       serialized_data =
         PyDict [(''pk'', PyInt 7), (''fields'', PyDict [(''name'', PyStr ''a'')])]\<rparr>,
      \<lparr>le_id = 2, le_timestamp = 5,
       serialized_data =
         PyDict [(''pk'', PyInt 7), (''fields'', PyDict [(''name'', PyStr ''b'')])]\<rparr>]"

text \<open>The same log with a third row, at time 8, whose payload is \<open>{"pk": 7, "fields": None}\<close>.\<close>

definition rows_ab_null :: "log_entry list" where
  "rows_ab_null =
     rows_ab @
     [\<lparr>le_id = 3, le_timestamp = 8,
       serialized_data = PyDict [(''pk'', PyInt 7), (''fields'', PyNone)]\<rparr>]"

text \<open>Two rows of one object that carry the same timestamp 5.\<close>

definition rows_tie :: "log_entry list" where
  "rows_tie =
     [\<lparr>le_id = 1, le_timestamp = 5,
       serialized_data = PyDict [(''fields'', PyDict [(''name'', PyStr ''a'')])]\<rparr>,
      \<lparr>le_id = 2, le_timestamp = 5,
       serialized_data = PyDict [(''fields'', PyDict [(''name'', PyStr ''b'')])]\<rparr>]"

text \<open>One row whose payload is \<open>sd\<close>.\<close>

definition row_with :: "pyval \<Rightarrow> log_entry list" where
  "row_with sd = [\<lparr>le_id = 1, le_timestamp = 1, serialized_data = sd\<rparr>]"

section \<open>Selection of the row\<close>

lemma select_log_None_iff:
  "select_log T qs = None \<longleftrightarrow> (\<forall>l \<in> set qs. \<not> le_timestamp l \<le> T)"
proof -
  have "select_log T qs = None \<longleftrightarrow> filter_timestamp_lte T qs = []"
    unfolding select_log_def order_by_timestamp_desc_def
    by (cases "sort_key (\<lambda>l. - le_timestamp l) (filter_timestamp_lte T qs)")
       (auto dest: arg_cong [where f = length])
  also have "\<dots> \<longleftrightarrow> (\<forall>l \<in> set qs. \<not> le_timestamp l \<le> T)"
    by (simp add: filter_timestamp_lte_def filter_empty_conv)
  finally show ?thesis .
qed

text \<open>The selected row is a row of the log at or before \<open>T\<close>, and no such row is later.\<close>

lemma select_log_Some:
  assumes "select_log T qs = Some l"
  shows "l \<in> set qs \<and> le_timestamp l \<le> T \<and>
         (\<forall>l' \<in> set qs. le_timestamp l' \<le> T \<longrightarrow> le_timestamp l' \<le> le_timestamp l)"
proof -
  let ?f = "\<lambda>l. - le_timestamp l"
  let ?xs = "filter_timestamp_lte T qs"
  from assms obtain rest where srt: "sort_key ?f ?xs = l # rest"
    unfolding select_log_def order_by_timestamp_desc_def
    by (cases "sort_key ?f ?xs") auto
  have "set (sort_key ?f ?xs) = set ?xs" by simp
  with srt have mem: "l \<in> set ?xs" and sub: "set ?xs \<subseteq> insert l (set rest)" by auto
  have "sorted (map ?f (sort_key ?f ?xs))" by (rule sorted_sort_key)
  with srt have le: "\<forall>y \<in> set rest. ?f l \<le> ?f y" by simp
  from mem have "l \<in> set qs" "le_timestamp l \<le> T"
    by (simp_all add: filter_timestamp_lte_def)
  moreover have "le_timestamp l' \<le> le_timestamp l"
    if "l' \<in> set qs" "le_timestamp l' \<le> T" for l'
  proof -
    from that have "l' \<in> set ?xs" by (simp add: filter_timestamp_lte_def)
    with sub have "l' = l \<or> l' \<in> set rest" by auto
    with le show ?thesis by auto
  qed
  ultimately show ?thesis by blast
qed

section \<open>Decoding the payload\<close>

text \<open>
  The payloads on which line 76 raises: a dict that binds \<open>fields\<close> to a value that is
  neither a dict nor a list. Nothing else raises.
\<close>

lemma decode_raises_iff:
  "decode_serialized_fields sd = Inl e \<longleftrightarrow>
     e = AttributeError \<and>
     (\<exists>d v. sd = PyDict d \<and> map_of d ''fields'' = Some v \<and>
            (\<forall>kvs. v \<noteq> PyDict kvs) \<and> (\<forall>xs. v \<noteq> PyList xs))"
proof (cases sd)
  case (PyDict d)
  show ?thesis
  proof (cases "map_of d ''fields''")
    case None
    with PyDict show ?thesis by (simp add: dict_get_def)
  next
    case (Some v)
    with PyDict show ?thesis by (cases v) (auto simp: dict_get_def)
  qed
qed simp_all

text \<open>
  A payload that is \<open>None\<close>, or not a dict, or a dict without the key \<open>fields\<close>, decodes
  to \<open>None\<close>.
\<close>

lemma decode_tolerated:
  assumes "sd = PyNone \<or> (\<forall>d. sd \<noteq> PyDict d) \<or>
           (\<exists>d. sd = PyDict d \<and> map_of d ''fields'' = None)"
  shows "decode_serialized_fields sd = Inr PyNone"
  using assms by (cases sd) (auto simp: dict_get_def or_None_def)

section \<open>The object-level lookup\<close>

lemma object_state_cases:
  assumes "gfo instance = Inr qs"
  shows "get_object_state_at_timestamp gfo instance T =
           (case select_log T qs of
              None \<Rightarrow> Inr \<lparr>log_found = False, serialized_fields = PyNone,
                           timestamp = None, log_entry_id = None\<rparr>
            | Some l \<Rightarrow>
                (case decode_serialized_fields (serialized_data l) of
                   Inl e \<Rightarrow> Inl e
                 | Inr sf \<Rightarrow> Inr \<lparr>log_found = True, serialized_fields = sf,
                                  timestamp = Some (le_timestamp l),
                                  log_entry_id = Some (le_id l)\<rparr>))"
  using assms by (simp add: get_object_state_at_timestamp_def)

lemma object_state_found:
  assumes "get_object_state_at_timestamp gfo instance T = Inr st" and "log_found st"
  shows "\<exists>qs l. gfo instance = Inr qs \<and> select_log T qs = Some l \<and>
           decode_serialized_fields (serialized_data l) = Inr (serialized_fields st) \<and>
           timestamp st = Some (le_timestamp l) \<and> log_entry_id st = Some (le_id l)"
  using assms
  by (auto simp: get_object_state_at_timestamp_def split: sum.splits option.splits)

text \<open>A manager that does not override \<open>get_for_object\<close> fails in both lookups.\<close>

lemma mixin_alone_raises:
  "get_object_state_at_timestamp get_for_object instance T = Inl NotImplementedError"
  "get_field_state_at_timestamp get_for_object instance name T = Inl NotImplementedError"
  by (simp_all add: get_field_state_at_timestamp_def get_object_state_at_timestamp_def
        get_for_object_def)

text \<open>
  With a row at or before \<open>T\<close> in the log, the lookup selects a latest such row. It then
  either returns that row's timestamp and id with \<open>log_found\<close> set, or raises
  \<open>AttributeError\<close> while decoding the payload of that row.
\<close>

lemma object_state_selects_latest:
  assumes "gfo instance = Inr qs" and "\<exists>l \<in> set qs. le_timestamp l \<le> T"
  shows "\<exists>l. select_log T qs = Some l \<and> l \<in> set qs \<and> le_timestamp l \<le> T \<and>
           (\<forall>l' \<in> set qs. le_timestamp l' \<le> T \<longrightarrow> le_timestamp l' \<le> le_timestamp l) \<and>
           (case decode_serialized_fields (serialized_data l) of
              Inl e \<Rightarrow> get_object_state_at_timestamp gfo instance T = Inl AttributeError
            | Inr sf \<Rightarrow>
                get_object_state_at_timestamp gfo instance T =
                  Inr \<lparr>log_found = True, serialized_fields = sf,
                       timestamp = Some (le_timestamp l), log_entry_id = Some (le_id l)\<rparr>)"
proof -
  from assms(2) have "select_log T qs \<noteq> None" by (simp add: select_log_None_iff)
  then obtain l where l: "select_log T qs = Some l" by auto
  have "e = AttributeError" if "decode_serialized_fields (serialized_data l) = Inl e" for e
    using that by (simp add: decode_raises_iff)
  with assms(1) l select_log_Some [OF l] show ?thesis
    by (auto simp: object_state_cases split: sum.splits)
qed

section \<open>The order in which the database passes the rows\<close>





text \<open>Unfolding the lookups on a concrete log.\<close>

lemmas lookup_eval =
  get_object_state_at_timestamp_def get_field_state_at_timestamp_def select_log_def
  order_by_timestamp_desc_def filter_timestamp_lte_def dict_get_def dict_contains_def
  or_None_def store_of_def rows_ab_def rows_ab_null_def row_with_def rows_tie_def
  query_rows_def object_state_call_def field_state_call_def

section \<open>The claims\<close>

text \<open>
  C1. For every entity that has a snapshot at or before \<open>T\<close>, the object-level lookup
  is said to return \<open>log_found = True\<close> with the timestamp and id of the latest such
  snapshot. In the log below the latest row at or before 10 is row 3, at time 8, whose
  payload is \<open>{"pk": 7, "fields": None}\<close>: the lookup selects it and then raises
  \<open>AttributeError\<close> on line 76 instead of returning its timestamp and id
  (\<open>object_state_selects_latest\<close> has the general statement).
\<close>

theorem object_state_raises_on_latest_row:
  "store_of rows_ab_null 7 = Inr rows_ab_null \<and>
   select_log 10 rows_ab_null =
     Some \<lparr>le_id = 3, le_timestamp = 8,
           serialized_data = PyDict [(''pk'', PyInt 7), (''fields'', PyNone)]\<rparr> \<and>
   get_object_state_at_timestamp (store_of rows_ab_null) 7 10 = Inl AttributeError"
  by (simp add: lookup_eval)

text \<open>
  C2. When no snapshot of the entity is at or before \<open>T\<close>, the object-level lookup
  returns \<open>log_found = False\<close> and leaves \<open>serialized_fields\<close>, \<open>timestamp\<close> and
  \<open>log_entry_id\<close> at \<open>None\<close>.
\<close>

theorem no_snapshot_log_not_found:
  assumes "gfo instance = Inr qs" and "\<forall>l \<in> set qs. \<not> le_timestamp l \<le> T"
  shows "get_object_state_at_timestamp gfo instance T =
           Inr \<lparr>log_found = False, serialized_fields = PyNone,
                timestamp = None, log_entry_id = None\<rparr>"
proof -
  from assms(2) have "select_log T qs = None" by (simp add: select_log_None_iff)
  with assms(1) show ?thesis by (simp add: object_state_cases)
qed

theorem no_snapshot_log_not_found_witness:
  "store_of rows_ab 7 = Inr rows_ab \<and> filter_timestamp_lte 0 rows_ab = [] \<and>
   get_object_state_at_timestamp (store_of rows_ab) 7 0 =
     Inr \<lparr>log_found = False, serialized_fields = PyNone,
          timestamp = None, log_entry_id = None\<rparr>"
proof -
  have h1: "store_of rows_ab 7 = Inr rows_ab" by (simp add: store_of_def)
  have h2: "\<forall>l \<in> set rows_ab. \<not> le_timestamp l \<le> 0" by (simp add: rows_ab_def)
  have h3: "filter_timestamp_lte 0 rows_ab = []"
    by (simp add: filter_timestamp_lte_def rows_ab_def)
  from no_snapshot_log_not_found [of "store_of rows_ab" 7 rows_ab 0, OF h1 h2]
    h1 h3
  show ?thesis by simp
qed

text \<open>
  C3. When the payload of the selected snapshot is \<open>None\<close>, is not a mapping, or lacks a
  \<open>fields\<close> mapping, the object-level lookup is said to return \<open>log_found = True\<close> with
  \<open>serialized_fields = None\<close> and never to raise. That holds for \<open>None\<close>, for a value that
  is not a dict and for a dict without the key \<open>fields\<close> (\<open>decode_tolerated\<close>). A dict
  that binds \<open>fields\<close> to something other than a mapping also lacks a fields mapping, and
  there the lookup does otherwise: on \<open>{"fields": None}\<close> it raises \<open>AttributeError\<close>,
  and on \<open>{"fields": [1]}\<close> it returns the list as \<open>serialized_fields\<close>.
\<close>

theorem fields_not_a_mapping_not_tolerated:
  "get_object_state_at_timestamp
     (store_of (row_with (PyDict [(''fields'', PyNone)]))) 7 5 = Inl AttributeError \<and>
   get_object_state_at_timestamp
     (store_of (row_with (PyDict [(''fields'', PyList [PyInt 1])]))) 7 5 =
     Inr \<lparr>log_found = True, serialized_fields = PyList [PyInt 1],
          timestamp = Some 1, log_entry_id = Some 1\<rparr>"
  by (simp add: lookup_eval)

text \<open>
  C4. When the selected snapshot has a \<open>fields\<close> mapping that is empty, the object-level
  lookup reports \<open>serialized_fields\<close> as \<open>None\<close>, not as an empty mapping, and the
  field-level lookup returns \<open>field_found = False\<close> for every field name.
\<close>

theorem empty_fields_reported_absent:
  assumes "gfo instance = Inr qs" and "select_log T qs = Some l"
    and "serialized_data l = PyDict d" and "map_of d ''fields'' = Some (PyDict [])"
  shows "(\<exists>st. get_object_state_at_timestamp gfo instance T = Inr st \<and>
               log_found st \<and> serialized_fields st = PyNone \<and>
               serialized_fields st \<noteq> PyDict []) \<and>
         (\<exists>fs. get_field_state_at_timestamp gfo instance name T = Inr fs \<and>
               \<not> field_found fs)"
  using assms
  by (simp add: get_field_state_at_timestamp_def object_state_cases dict_get_def or_None_def)

theorem empty_fields_reported_absent_witness:
  "store_of (row_with (PyDict [(''fields'', PyDict [])])) 7 =
     Inr (row_with (PyDict [(''fields'', PyDict [])])) \<and>
   select_log 5 (row_with (PyDict [(''fields'', PyDict [])])) =
     Some \<lparr>le_id = 1, le_timestamp = 1,
           serialized_data = PyDict [(''fields'', PyDict [])]\<rparr> \<and>
   map_of [(''fields'', PyDict [])] ''fields'' = Some (PyDict []) \<and>
   (\<exists>st. get_object_state_at_timestamp
           (store_of (row_with (PyDict [(''fields'', PyDict [])]))) 7 5 = Inr st \<and>
         log_found st \<and> serialized_fields st = PyNone \<and>
         serialized_fields st \<noteq> PyDict []) \<and>
   (\<exists>fs. get_field_state_at_timestamp
           (store_of (row_with (PyDict [(''fields'', PyDict [])]))) 7 ''name'' 5 = Inr fs \<and>
         \<not> field_found fs)"
proof -
  let ?d = "[(''fields'', PyDict [])]"
  let ?l = "\<lparr>le_id = 1, le_timestamp = 1, serialized_data = PyDict ?d\<rparr>"
  have h1: "store_of (row_with (PyDict ?d)) 7 = Inr (row_with (PyDict ?d))"
    by (simp add: store_of_def)
  have h2: "select_log 5 (row_with (PyDict ?d)) = Some ?l"
    by (simp add: lookup_eval)
  have h3: "serialized_data ?l = PyDict ?d" by simp
  have h4: "map_of ?d ''fields'' = Some (PyDict [])" by simp
  from empty_fields_reported_absent
         [of "store_of (row_with (PyDict ?d))" 7 "row_with (PyDict ?d)" 5 ?l ?d "''name''",
          OF h1 h2 h3 h4] h1 h2 h4
  show ?thesis by simp
qed

text \<open>
  C5. When the object-level result has \<open>log_found = True\<close>, the field-level lookup
  returns \<open>field_found = False\<close> if \<open>serialized_fields\<close> is \<open>None\<close> (or any value that is
  not a mapping) or is a mapping without the key \<open>field_name\<close>, and otherwise returns
  \<open>field_found = True\<close> with the value the mapping holds for \<open>field_name\<close>.
\<close>

theorem field_state_projection:
  assumes "get_object_state_at_timestamp gfo instance T = Inr st" and "log_found st"
  shows "\<exists>fs. get_field_state_at_timestamp gfo instance name T = Inr fs \<and>
           (case serialized_fields st of
              PyDict d \<Rightarrow>
                (case map_of d name of
                   None \<Rightarrow> \<not> field_found fs
                 | Some v \<Rightarrow> field_found fs \<and> value_f fs = v)
            | _ \<Rightarrow> \<not> field_found fs)"
  using assms
  by (auto simp: get_field_state_at_timestamp_def dict_contains_def dict_get_def
           split: pyval.splits option.splits)

theorem field_state_projection_witness:
  "get_object_state_at_timestamp (store_of rows_ab) 7 10 =
     Inr \<lparr>log_found = True, serialized_fields = PyDict [(''name'', PyStr ''b'')],
          timestamp = Some 5, log_entry_id = Some 2\<rparr> \<and>
   (\<exists>fs. get_field_state_at_timestamp (store_of rows_ab) 7 ''name'' 10 = Inr fs \<and>
         field_found fs \<and> value_f fs = PyStr ''b'') \<and>
   (\<exists>fs. get_field_state_at_timestamp (store_of rows_ab) 7 ''color'' 10 = Inr fs \<and>
         \<not> field_found fs)"
proof -
  let ?st = "\<lparr>log_found = True, serialized_fields = PyDict [(''name'', PyStr ''b'')],
              timestamp = Some 5, log_entry_id = Some 2\<rparr>"
  have h1: "get_object_state_at_timestamp (store_of rows_ab) 7 10 = Inr ?st"
    by (simp add: lookup_eval)
  have h2: "log_found ?st" by simp
  from field_state_projection [where name = "''name''", OF h1 h2]
       field_state_projection [where name = "''color''", OF h1 h2] h1
  show ?thesis by simp
qed

text \<open>
  C6. When the object-level lookup finds a snapshot, the field-level lookup for the same
  entity and \<open>T\<close>, and any field name, also reports \<open>log_found\<close> and carries the same
  timestamp and the same log entry id: both refer to the same snapshot.
\<close>

theorem field_state_same_snapshot:
  assumes "get_object_state_at_timestamp gfo instance T = Inr st" and "log_found st"
  shows "\<exists>fs. get_field_state_at_timestamp gfo instance name T = Inr fs \<and>
           log_found_f fs \<and> timestamp_f fs = timestamp st \<and>
           log_entry_id_f fs = log_entry_id st"
  using assms
  by (auto simp: get_field_state_at_timestamp_def split: pyval.splits)

theorem field_state_same_snapshot_witness:
  "get_object_state_at_timestamp (store_of rows_ab) 7 3 =
     Inr \<lparr>log_found = True, serialized_fields = PyDict [(''name'', PyStr ''a'')],
          timestamp = Some 1, log_entry_id = Some 1\<rparr> \<and>
   (\<exists>fs. get_field_state_at_timestamp (store_of rows_ab) 7 ''color'' 3 = Inr fs \<and>
         log_found_f fs \<and> timestamp_f fs = Some 1 \<and> log_entry_id_f fs = Some 1)"
proof -
  let ?st = "\<lparr>log_found = True, serialized_fields = PyDict [(''name'', PyStr ''a'')],
              timestamp = Some 1, log_entry_id = Some 1\<rparr>"
  have h1: "get_object_state_at_timestamp (store_of rows_ab) 7 3 = Inr ?st"
    by (simp add: lookup_eval)
  have h2: "log_found ?st" by simp
  from field_state_same_snapshot [where name = "''color''", OF h1 h2] h1
  show ?thesis by simp
qed

text \<open>
  C7. Every result the field-level lookup returns satisfies: \<open>field_found\<close> only if
  \<open>log_found\<close>; if \<open>log_found\<close> is false then \<open>field_found\<close> is false and \<open>value\<close>,
  \<open>timestamp\<close> and \<open>log_entry_id\<close> are \<open>None\<close>; and \<open>field_name\<close> is the requested name.
\<close>

theorem field_state_invariant:
  assumes "get_field_state_at_timestamp gfo instance name T = Inr fs"
  shows "(field_found fs \<longrightarrow> log_found_f fs) \<and>
         (\<not> log_found_f fs \<longrightarrow>
            \<not> field_found fs \<and> value_f fs = PyNone \<and>
            timestamp_f fs = None \<and> log_entry_id_f fs = None) \<and>
         field_name fs = name"
  using assms
  by (auto simp: get_field_state_at_timestamp_def split: sum.splits if_splits pyval.splits)

theorem field_state_invariant_witness:
  "get_field_state_at_timestamp (store_of rows_ab) 7 ''name'' 10 =
     Inr \<lparr>log_found_f = True, field_found = True, field_name = ''name'',
          value_f = PyStr ''b'', timestamp_f = Some 5, log_entry_id_f = Some 2\<rparr> \<and>
   get_field_state_at_timestamp (store_of rows_ab) 7 ''name'' 0 =
     Inr \<lparr>log_found_f = False, field_found = False, field_name = ''name'',
          value_f = PyNone, timestamp_f = None, log_entry_id_f = None\<rparr>"
proof -
  let ?found = "\<lparr>log_found_f = True, field_found = True, field_name = ''name'',
                 value_f = PyStr ''b'', timestamp_f = Some 5, log_entry_id_f = Some 2\<rparr>"
  obtain fs where fs: "get_field_state_at_timestamp (store_of rows_ab) 7 ''name'' 0 = Inr fs"
    by (simp add: lookup_eval)
  have miss: "\<not> log_found_f fs" using fs by (auto simp: lookup_eval)
  have h1: "get_field_state_at_timestamp (store_of rows_ab) 7 ''name'' 10 = Inr ?found"
    by (simp add: lookup_eval)
  have "field_found ?found" by simp
  with field_state_invariant [OF h1] have "log_found_f ?found" by blast
  moreover from field_state_invariant [OF fs] miss
  have "\<not> field_found fs \<and> value_f fs = PyNone \<and> timestamp_f fs = None \<and>
        log_entry_id_f fs = None \<and> field_name fs = ''name''" by blast
  with miss have "fs = \<lparr>log_found_f = False, field_found = False, field_name = ''name'',
          value_f = PyNone, timestamp_f = None, log_entry_id_f = None\<rparr>" by simp
  ultimately show ?thesis using h1 fs by simp
qed

text \<open>
  C8. For \<open>T1 < T2\<close> over the same log, if the object-level lookup finds a snapshot at
  both, the timestamp of the one found for \<open>T2\<close> is at least that of the one found for
  \<open>T1\<close>.
\<close>

theorem selection_monotone:
  assumes "T1 < T2"
    and "get_object_state_at_timestamp gfo instance T1 = Inr s1" and "log_found s1"
    and "get_object_state_at_timestamp gfo instance T2 = Inr s2" and "log_found s2"
  shows "\<exists>t1 t2. timestamp s1 = Some t1 \<and> timestamp s2 = Some t2 \<and> t1 \<le> t2"
proof -
  from object_state_found [OF assms(2,3)] obtain qs l1 where
    q1: "gfo instance = Inr qs" and l1: "select_log T1 qs = Some l1"
    and t1: "timestamp s1 = Some (le_timestamp l1)" by blast
  from object_state_found [OF assms(4,5)] q1 obtain l2 where
    l2: "select_log T2 qs = Some l2" and t2: "timestamp s2 = Some (le_timestamp l2)" by auto
  from select_log_Some [OF l1] have "l1 \<in> set qs" "le_timestamp l1 \<le> T1" by simp_all
  with assms(1) select_log_Some [OF l2] have "le_timestamp l1 \<le> le_timestamp l2" by auto
  with t1 t2 show ?thesis by simp
qed

theorem selection_monotone_witness:
  "(3::int) < 10 \<and>
   get_object_state_at_timestamp (store_of rows_ab) 7 3 =
     Inr \<lparr>log_found = True, serialized_fields = PyDict [(''name'', PyStr ''a'')],
          timestamp = Some 1, log_entry_id = Some 1\<rparr> \<and>
   get_object_state_at_timestamp (store_of rows_ab) 7 10 =
     Inr \<lparr>log_found = True, serialized_fields = PyDict [(''name'', PyStr ''b'')],
          timestamp = Some 5, log_entry_id = Some 2\<rparr> \<and>
   (\<exists>t1 t2. Some (1::int) = Some t1 \<and> Some (5::int) = Some t2 \<and> t1 \<le> t2)"
proof -
  let ?s1 = "\<lparr>log_found = True, serialized_fields = PyDict [(''name'', PyStr ''a'')],
              timestamp = Some 1, log_entry_id = Some 1\<rparr>"
  let ?s2 = "\<lparr>log_found = True, serialized_fields = PyDict [(''name'', PyStr ''b'')],
              timestamp = Some 5, log_entry_id = Some 2\<rparr>"
  have h0: "(3::int) < 10" by simp
  have h1: "get_object_state_at_timestamp (store_of rows_ab) 7 3 = Inr ?s1"
    by (simp add: lookup_eval)
  have h2: "get_object_state_at_timestamp (store_of rows_ab) 7 10 = Inr ?s2"
    by (simp add: lookup_eval)
  have f1: "log_found ?s1" and f2: "log_found ?s2" by simp_all
  from selection_monotone [OF h0 h1 f1 h2 f2] h1 h2 show ?thesis by simp
qed




text \<open>
  C10. When the \<open>fields\<close> mapping of the selected snapshot holds \<open>None\<close> for the requested
  name, the field-level lookup returns \<open>field_found = True\<close> with \<open>value = None\<close>: a
  \<open>None\<close> value in the result does not mean that the field was missing.
\<close>

theorem null_value_is_found:
  assumes "gfo instance = Inr qs" and "select_log T qs = Some l"
    and "serialized_data l = PyDict d" and "map_of d ''fields'' = Some (PyDict fd)"
    and "map_of fd name = Some PyNone"
  shows "\<exists>fs. get_field_state_at_timestamp gfo instance name T = Inr fs \<and>
           field_found fs \<and> value_f fs = PyNone"
proof -
  from assms(5) have "fd \<noteq> []" by auto
  with assms show ?thesis
    by (simp add: get_field_state_at_timestamp_def object_state_cases dict_get_def
                  or_None_def dict_contains_def)
qed

theorem null_value_is_found_witness:
  "store_of (row_with (PyDict [(''fields'', PyDict [(''name'', PyNone)])])) 7 =
     Inr (row_with (PyDict [(''fields'', PyDict [(''name'', PyNone)])])) \<and>
   select_log 5 (row_with (PyDict [(''fields'', PyDict [(''name'', PyNone)])])) =
     Some \<lparr>le_id = 1, le_timestamp = 1,
           serialized_data = PyDict [(''fields'', PyDict [(''name'', PyNone)])]\<rparr> \<and>
   map_of [(''name'', PyNone)] ''name'' = Some PyNone \<and>
   (\<exists>fs. get_field_state_at_timestamp
           (store_of (row_with (PyDict [(''fields'', PyDict [(''name'', PyNone)])])))
           7 ''name'' 5 = Inr fs \<and>
         field_found fs \<and> value_f fs = PyNone)"
proof -
  let ?fd = "[(''name'', PyNone)]"
  let ?d = "[(''fields'', PyDict ?fd)]"
  let ?l = "\<lparr>le_id = 1, le_timestamp = 1, serialized_data = PyDict ?d\<rparr>"
  have h1: "store_of (row_with (PyDict ?d)) 7 = Inr (row_with (PyDict ?d))"
    by (simp add: store_of_def)
  have h2: "select_log 5 (row_with (PyDict ?d)) = Some ?l"
    by (simp add: lookup_eval)
  have h3: "serialized_data ?l = PyDict ?d" by simp
  have h4: "map_of ?d ''fields'' = Some (PyDict ?fd)" by simp
  have h5: "map_of ?fd ''name'' = Some PyNone" by simp
  from null_value_is_found
         [of "store_of (row_with (PyDict ?d))" 7 "row_with (PyDict ?d)" 5 ?l ?d ?fd "''name''",
          OF h1 h2 h3 h4 h5] h1 h2 h5
  show ?thesis by simp
qed

end
